theory Spec2Isabelle
  imports Complex_Main
begin

section \<open>Numbers\<close>

text \<open>
  Embedding coordinates are taken as exact reals: the rounding of \<open>Float32Array\<close> and of
  double arithmetic is abstracted away. What is kept of the JavaScript number type is
  \<open>NaN\<close>, because the code can produce it without any rounding: reading a typed array or
  an array past its end gives \<open>undefined\<close>, and \<open>x - undefined\<close> is \<open>NaN\<close>. \<open>NaN\<close> is
  absorbing for the arithmetic used here and every comparison with it is false.
\<close>

datatype jsnum = Num real | NaN

fun jsub :: "jsnum \<Rightarrow> jsnum \<Rightarrow> jsnum" where
  "jsub (Num x) (Num y) = Num (x - y)"
| "jsub _ _ = NaN"

fun jadd :: "jsnum \<Rightarrow> jsnum \<Rightarrow> jsnum" where
  "jadd (Num x) (Num y) = Num (x + y)"
| "jadd _ _ = NaN"

fun jmul :: "jsnum \<Rightarrow> jsnum \<Rightarrow> jsnum" where
  "jmul (Num x) (Num y) = Num (x * y)"
| "jmul _ _ = NaN"

fun jless :: "jsnum \<Rightarrow> jsnum \<Rightarrow> bool" where
  "jless (Num x) (Num y) = (x < y)"
| "jless _ _ = False"

text \<open>\<open>Math.pow(x, n)\<close> for a natural exponent; \<open>Math.pow(NaN, 0)\<close> is 1.\<close>

fun Math_pow :: "jsnum \<Rightarrow> nat \<Rightarrow> jsnum" where
  "Math_pow (Num x) n = Num (x ^ n)"
| "Math_pow NaN n = (if n = 0 then Num 1 else NaN)"

text \<open>\<open>Math.sqrt\<close> of a negative number is \<open>NaN\<close>.\<close>

fun Math_sqrt :: "jsnum \<Rightarrow> jsnum" where
  "Math_sqrt (Num x) = (if x < 0 then NaN else Num (sqrt x))"
| "Math_sqrt NaN = NaN"

text \<open>\<open>Math.round\<close> rounds to the nearest integer, a tie going up.\<close>

fun Math_round :: "jsnum \<Rightarrow> jsnum" where
  "Math_round (Num x) = Num (of_int \<lfloor>x + 1 / 2\<rfloor>)"
| "Math_round NaN = NaN"

text \<open>\<open>arr[i]\<close> used as an operand of arithmetic: out of range it is \<open>undefined\<close>, hence \<open>NaN\<close>.\<close>

definition at_index :: "real list \<Rightarrow> nat \<Rightarrow> jsnum" where
  "at_index arr i = (if i < length arr then Num (arr ! i) else NaN)"

section \<open>The matcher (src/lib/faceApi.ts)\<close>

text \<open>
  \<^verbatim>\<open>
  let sum = 0;
  for (let i = 0; i < arr1.length; i++) { sum += Math.pow(arr1[i] - arr2[i], 2); }
  return Math.sqrt(sum);
  \<close>
  The accumulator \<open>sum\<close> is called \<open>acc\<close> here.
\<close>

function euclid_loop :: "real list \<Rightarrow> real list \<Rightarrow> nat \<Rightarrow> jsnum \<Rightarrow> jsnum" where
  "euclid_loop arr1 arr2 i acc =
     (if i < length arr1
      then euclid_loop arr1 arr2 (i + 1)
             (jadd acc (Math_pow (jsub (at_index arr1 i) (at_index arr2 i)) 2))
      else acc)"
  by pat_completeness auto
termination
  by (relation "measure (\<lambda>(arr1, arr2, i, acc). length arr1 - i)") auto

definition euclideanDistance :: "real list \<Rightarrow> real list \<Rightarrow> jsnum" where
  "euclideanDistance arr1 arr2 = Math_sqrt (euclid_loop arr1 arr2 0 (Num 0))"

record StoredFace =
  employeeId :: string
  descriptors :: "real list list"

record Match =
  m_employeeId :: string
  m_distance :: jsnum

text \<open>
  The body of the inner loop: the running best is replaced when there is none yet or
  when the new distance is strictly smaller.
\<close>

definition consider_desc :: "real list \<Rightarrow> string \<Rightarrow> real list \<Rightarrow> Match option \<Rightarrow> Match option" where
  "consider_desc descriptor eid storedDesc bestMatch =
     (let distance = euclideanDistance descriptor storedDesc in
      case bestMatch of
        None \<Rightarrow> Some \<lparr>m_employeeId = eid, m_distance = distance\<rparr>
      | Some b \<Rightarrow>
          if jless distance (m_distance b)
          then Some \<lparr>m_employeeId = eid, m_distance = distance\<rparr>
          else bestMatch)"

definition consider_stored :: "real list \<Rightarrow> StoredFace \<Rightarrow> Match option \<Rightarrow> Match option" where
  "consider_stored descriptor stored bestMatch =
     fold (consider_desc descriptor (employeeId stored)) (descriptors stored) bestMatch"

definition findBestMatch :: "real list \<Rightarrow> StoredFace list \<Rightarrow> Match option" where
  "findBestMatch descriptor storedDescriptors =
     fold (consider_stored descriptor) storedDescriptors None"

text \<open>The (identity, embedding) pairs of a reference set, in the order the loops visit them.\<close>

definition pairs_of :: "StoredFace list \<Rightarrow> (string \<times> real list) list" where
  "pairs_of storedDescriptors =
     concat (map (\<lambda>s. map (\<lambda>d. (employeeId s, d)) (descriptors s)) storedDescriptors)"

text \<open>Embeddings have one fixed length: every stored embedding is as long as the live one.\<close>

definition fixed_length :: "real list \<Rightarrow> StoredFace list \<Rightarrow> bool" where
  "fixed_length descriptor storedDescriptors =
     (\<forall>s \<in> set storedDescriptors. \<forall>e \<in> set (descriptors s). length e = length descriptor)"

text \<open>
  The Euclidean distance in the words of the spec, for embeddings of one length; the
  loop above is compared with it below.
\<close>

definition l2_distance :: "real list \<Rightarrow> real list \<Rightarrow> real" where
  "l2_distance a b = sqrt (\<Sum>k<length a. (a ! k - b ! k)\<^sup>2)"

text \<open>One pass of the inner loop body on a pair, and the match record built from a pair.\<close>

definition consider_pair :: "real list \<Rightarrow> string \<times> real list \<Rightarrow> Match option \<Rightarrow> Match option" where
  "consider_pair d p = consider_desc d (fst p) (snd p)"

definition hit :: "real list \<Rightarrow> string \<times> real list \<Rightarrow> Match" where
  "hit d p = \<lparr>m_employeeId = fst p, m_distance = euclideanDistance d (snd p)\<rparr>"

section \<open>The recognition loop (LiveAttendance)\<close>

subsection \<open>Time\<close>

text \<open>
  A \<open>Date\<close> is a number of milliseconds, counted in local time with days of 24 hours
  (time zones and daylight saving are left out). \<open>format(now, 'yyyy-MM-dd')\<close> is the day
  number; \<open>setHours(h, m, s, ms)\<close> keeps the day and replaces the time of day; two dates
  compare by their numbers.
\<close>

type_synonym Date = int

definition local_day :: "Date \<Rightarrow> int" where
  "local_day t = t div 86400000"

definition time_of_day :: "Date \<Rightarrow> int" where
  "time_of_day t = t mod 86400000"

definition setHours :: "int \<Rightarrow> int \<Rightarrow> int \<Rightarrow> int \<Rightarrow> Date \<Rightarrow> Date" where
  "setHours h m s ms t = local_day t * 86400000 + ((h * 60 + m) * 60 + s) * 1000 + ms"

subsection \<open>Data\<close>

datatype status = Present | Late

record Employee =
  e_id :: string
  e_name :: string
  e_employee_id :: string
  e_department :: string

record AttendanceRow =
  a_employee_id :: string
  a_check_in_time :: Date
  a_date :: int
  a_confidence_score :: jsnum
  a_status :: status

record RecentAttendance =
  r_employee :: Employee
  r_time :: Date
  r_confidence :: jsnum

text \<open>
  The three state variables that \<open>detectAndMatch\<close> lists as dependencies. A value of this
  record is what one render of the component sees; the callbacks created in that render
  close over it.
\<close>

record Snapshot =
  storedFaces :: "StoredFace list"
  employees :: "string \<rightharpoonup> Employee"
  markedToday :: "string set"

text \<open>
  The component's current state, the \<open>processLockRef\<close> cell, and the attendance table of
  the external store: \<open>attendance\<close> holds the rows it has accepted, \<open>insert_calls\<close> every
  row the component has asked it to insert. Drawing on the canvas is left out.
\<close>

record World =
  state :: Snapshot
  lastMatch :: "(Employee \<times> jsnum) option"
  recentAttendance :: "RecentAttendance list"
  faceDetected :: bool
  isProcessing :: bool
  processLock :: bool
  attendance :: "AttendanceRow list"
  insert_calls :: "AttendanceRow list"
  toasts :: "string list"

text \<open>
  What one animation frame brings from outside: the video frame (refs not mounted, video
  not ready, no face, or a face with its descriptor), the two readings of the clock that
  \<open>markAttendance\<close> takes (\<open>now\<close> and the \<open>new Date()\<close> that becomes \<open>workStartTime\<close>), and
  whether the store answers an insert with an error.
\<close>

datatype Frame = Unmounted | NotReady | NoFace | Face "real list"

record Tick =
  frame :: Frame
  now :: Date
  now2 :: Date
  insert_error :: bool

datatype Event = AnimationFrame Tick | Timeout

definition MATCH_THRESHOLD :: jsnum where
  "MATCH_THRESHOLD = Num (1 / 2)"

subsection \<open>markAttendance\<close>

text \<open>
  \<^verbatim>\<open>
  const now = new Date();
  const workStartTime = new Date();
  workStartTime.setHours(9, 0, 0, 0);
  const status = now > workStartTime ? 'late' : 'present';
  \<close>
\<close>

definition attendance_status :: "Date \<Rightarrow> Date \<Rightarrow> status" where
  "attendance_status t_now t_start =
     (let workStartTime = setHours 9 0 0 0 t_start in
      if t_now > workStartTime then Late else Present)"

definition attendance_row :: "Employee \<Rightarrow> jsnum \<Rightarrow> Tick \<Rightarrow> AttendanceRow" where
  "attendance_row employee confidence t =
     \<lparr>a_employee_id = e_id employee,
      a_check_in_time = now t,
      a_date = local_day (now t),
      a_confidence_score = confidence,
      a_status = attendance_status (now t) (now2 t)\<rparr>"

text \<open>
  The insert is always asked for. On an error the \<open>catch\<close> branch only raises a toast; on
  success \<open>setMarkedToday((prev) => new Set([...prev, employee.id]))\<close> and
  \<open>setRecentAttendance\<close> update the current state. \<open>finally\<close> clears \<open>isProcessing\<close>.
\<close>

definition markAttendance :: "Employee \<Rightarrow> jsnum \<Rightarrow> Tick \<Rightarrow> World \<Rightarrow> World" where
  "markAttendance employee confidence t w =
     (let row = attendance_row employee confidence t;
          w1 = w\<lparr>isProcessing := True, insert_calls := insert_calls w @ [row]\<rparr>
      in if insert_error t
         then w1\<lparr>toasts := toasts w1 @ [''Error''], isProcessing := False\<rparr>
         else w1\<lparr>attendance := attendance w1 @ [row],
                 state := (state w1)\<lparr>markedToday := insert (e_id employee) (markedToday (state w1))\<rparr>,
                 recentAttendance :=
                   \<lparr>r_employee = employee, r_time = now t, r_confidence = confidence\<rparr>
                     # take 9 (recentAttendance w1),
                 toasts := toasts w1 @ [''Attendance Marked!''],
                 isProcessing := False\<rparr>)"

subsection \<open>detectAndMatch\<close>

text \<open>\<open>Math.round((1 - match.distance) * 100)\<close>\<close>

definition confidence_of :: "jsnum \<Rightarrow> jsnum" where
  "confidence_of distance = Math_round (jmul (jsub (Num 1) distance) (Num 100))"

text \<open>
  One run of the callback. Its first argument is the snapshot the callback closes over:
  \<open>storedFaces\<close>, \<open>employees\<close> and \<open>markedToday\<close> in its body are the values of the render
  that created it, while \<open>setLastMatch\<close>, \<open>setFaceDetected\<close>, the lock and \<open>markAttendance\<close>
  act on the world.
\<close>

definition detectAndMatch :: "Snapshot \<Rightarrow> Tick \<Rightarrow> World \<Rightarrow> World" where
  "detectAndMatch sc t w =
     (case frame t of
        Unmounted \<Rightarrow> w
      | NotReady \<Rightarrow> w
      | NoFace \<Rightarrow> w\<lparr>faceDetected := False, lastMatch := None\<rparr>
      | Face descriptor \<Rightarrow>
          let w1 = w\<lparr>faceDetected := True\<rparr> in
          if \<not> processLock w1 \<and> length (storedFaces sc) > 0
          then
            let w2 = w1\<lparr>processLock := True\<rparr> in
            (case findBestMatch descriptor (storedFaces sc) of
               None \<Rightarrow> w2\<lparr>lastMatch := None\<rparr>
             | Some match \<Rightarrow>
                 if jless (m_distance match) MATCH_THRESHOLD
                 then
                   (case employees sc (m_employeeId match) of
                      None \<Rightarrow> w2
                    | Some employee \<Rightarrow>
                        let confidence = confidence_of (m_distance match);
                            w3 = w2\<lparr>lastMatch := Some (employee, confidence)\<rparr>
                        in if e_id employee \<notin> markedToday sc
                           then markAttendance employee confidence t w3
                           else w3)
                 else w2\<lparr>lastMatch := None\<rparr>)
          else w1)"

subsection \<open>Events of the callback chain\<close>

text \<open>
  \<^verbatim>\<open>
  const detectAndMatch = useCallback(async () => {
    ...
    animationRef.current = requestAnimationFrame(detectAndMatch);
  }, [storedFaces, employees, markedToday]);
  \<close>
  The callback re-schedules \<open>detectAndMatch\<close> as bound in its own scope, which is itself,
  so consecutive frames of one chain are handled under one snapshot. The timer set after
  a match attempt releases the lock when it fires. \<open>step\<close> is one such event. Whether
  \<open>startCamera\<close> ever enters the chain is outside this model: the statements below are
  about the callback on the frames it is given.
\<close>

fun step :: "Snapshot \<Rightarrow> Event \<Rightarrow> World \<Rightarrow> World" where
  "step sc (AnimationFrame t) w = detectAndMatch sc t w"
| "step sc Timeout w = w\<lparr>processLock := False\<rparr>"

text \<open>
  The component as it mounts (the initial values of its \<open>useState\<close> and \<open>useRef\<close> calls),
  in front of an attendance table holding \<open>rows\<close>.
\<close>

definition mount :: "AttendanceRow list \<Rightarrow> World" where
  "mount rows =
     \<lparr>state = \<lparr>storedFaces = [], employees = Map.empty, markedToday = {}\<rparr>,
      lastMatch = None,
      recentAttendance = [],
      faceDetected = False,
      isProcessing = False,
      processLock = False,
      attendance = rows,
      insert_calls = [],
      toasts = []\<rparr>"

text \<open>
  Whom a descriptor is recognized as under a snapshot, with the confidence reported: the
  accepting path of \<open>detectAndMatch\<close> (stored faces present, a best match below the
  threshold, the employee known), named for the statements below.
\<close>

definition recognized :: "Snapshot \<Rightarrow> real list \<Rightarrow> (Employee \<times> jsnum) option" where
  "recognized sc descriptor =
     (if length (storedFaces sc) > 0
      then (case findBestMatch descriptor (storedFaces sc) of
              None \<Rightarrow> None
            | Some match \<Rightarrow>
                if jless (m_distance match) MATCH_THRESHOLD
                then (case employees sc (m_employeeId match) of
                        None \<Rightarrow> None
                      | Some employee \<Rightarrow> Some (employee, confidence_of (m_distance match)))
                else None)
      else None)"

section \<open>Enrollment (FaceRegistration)\<close>

definition REQUIRED_CAPTURES :: nat where
  "REQUIRED_CAPTURES = 5"

record FormData =
  f_name :: string
  f_employeeId :: string
  f_department :: string
  f_email :: string
  f_phone :: string

record Enrollment =
  capturedDescriptors :: "real list list"
  capturedImages :: "string list"
  formData :: FormData

text \<open>
  What \<open>handleSubmit\<close> does to the outside, in order. The answers of the outside are its
  first argument: whether the employee query finds a row, what the employee insert
  returns (\<open>None\<close> for an error, else the new row's id), whether saving the encodings
  succeeds. The call \<open>e.preventDefault()\<close> is left out.
\<close>

datatype Effect =
    Toast string
  | SetIsProcessing bool
  | SelectEmployee string
  | InsertEmployee FormData
  | SaveFaceEncoding string "real list list"
  | ConsoleError
  | StopCamera
  | Navigate string

record Backend =
  existing :: bool
  insert_result :: "string option"
  save_ok :: bool

definition handleSubmit :: "Backend \<Rightarrow> Enrollment \<Rightarrow> Effect list" where
  "handleSubmit b s =
     (if length (capturedDescriptors s) < REQUIRED_CAPTURES
      then [Toast ''Insufficient captures'']
      else if f_name (formData s) = [] \<or> f_employeeId (formData s) = []
              \<or> f_department (formData s) = []
      then [Toast ''Missing information'']
      else
        [SetIsProcessing True, SelectEmployee (f_employeeId (formData s))] @
        (if existing b
         then [Toast ''Employee ID exists'', SetIsProcessing False, SetIsProcessing False]
         else
           InsertEmployee (formData s) #
           (case insert_result b of
              None \<Rightarrow> [ConsoleError, Toast ''Registration failed'', SetIsProcessing False]
            | Some eid \<Rightarrow>
                SaveFaceEncoding eid (capturedDescriptors s) #
                (if save_ok b
                 then [Toast ''Registration successful!'', StopCamera,
                       Navigate ''/employees'', SetIsProcessing False]
                 else [ConsoleError, Toast ''Registration failed'', SetIsProcessing False]))))"

fun store_effect :: "Effect \<Rightarrow> bool" where
  "store_effect (SelectEmployee _) = True"
| "store_effect (InsertEmployee _) = True"
| "store_effect (SaveFaceEncoding _ _) = True"
| "store_effect _ = False"

section \<open>Properties of the matcher\<close>

subsection \<open>The distance loop\<close>

lemma euclid_loop_sum:
  "length arr1 \<le> length arr2 \<Longrightarrow>
   euclid_loop arr1 arr2 i (Num s) = Num (s + (\<Sum>k = i..<length arr1. (arr1 ! k - arr2 ! k)\<^sup>2))"
proof (induction arr1 arr2 i "Num s" arbitrary: s rule: euclid_loop.induct)
  case (1 arr1 arr2 i)
  show ?case
  proof (cases "i < length arr1")
    case True
    then have "i < length arr2" using "1.prems" by simp
    with True "1.hyps"[OF True, of "s + (arr1 ! i - arr2 ! i)\<^sup>2"] "1.prems" show ?thesis
      by (simp add: at_index_def sum.atLeast_Suc_lessThan add.assoc)
  next
    case False
    then show ?thesis by simp
  qed
qed

lemma euclideanDistance_l2:
  assumes "length arr1 \<le> length arr2"
  shows "euclideanDistance arr1 arr2 = Num (l2_distance arr1 arr2)"
proof -
  have "0 \<le> (\<Sum>k<length arr1. (arr1 ! k - arr2 ! k)\<^sup>2)"
    by (rule sum_nonneg) simp
  then show ?thesis
    using euclid_loop_sum[OF assms, of 0 0]
    by (simp add: euclideanDistance_def l2_distance_def atLeast0LessThan)
qed

lemma l2_distance_nonneg: "0 \<le> l2_distance a b"
  unfolding l2_distance_def by (simp add: sum_nonneg)

lemma l2_distance_commute: "length a = length b \<Longrightarrow> l2_distance a b = l2_distance b a"
  by (simp add: l2_distance_def power2_commute)

lemma l2_distance_self: "l2_distance a a = 0"
  by (simp add: l2_distance_def)

lemma l2_distance_zero_iff:
  assumes "length a = length b"
  shows "l2_distance a b = 0 \<longleftrightarrow> a = b"
proof
  assume "l2_distance a b = 0"
  then have "(\<Sum>k<length a. (a ! k - b ! k)\<^sup>2) = 0"
    by (simp add: l2_distance_def)
  then have "\<forall>k\<in>{..<length a}. (a ! k - b ! k)\<^sup>2 = 0"
    by (subst (asm) sum_nonneg_eq_0_iff) auto
  then have "\<forall>k<length a. a ! k = b ! k" by simp
  with assms show "a = b" by (simp add: nth_equalityI)
next
  assume "a = b" then show "l2_distance a b = 0" by (simp add: l2_distance_self)
qed

text \<open>
  Claim C8. For embeddings \<open>a\<close> and \<open>b\<close> of the same length the distance from \<open>a\<close> to \<open>b\<close>
  is the distance from \<open>b\<close> to \<open>a\<close>, and the distance from any embedding to itself is
  exactly 0 (coordinates taken as exact reals).
\<close>

theorem euclideanDistance_symmetric_zero:
  "(length a = length b \<longrightarrow> euclideanDistance a b = euclideanDistance b a)
   \<and> euclideanDistance a a = Num 0"
  by (simp add: euclideanDistance_l2 l2_distance_commute l2_distance_self)

theorem euclideanDistance_symmetric_zero_witness:
  "length [1, 2::real] = length [4, 6::real]
   \<and> euclideanDistance [1, 2] [4, 6] = euclideanDistance [4, 6] [1, 2]
   \<and> euclideanDistance [1, 2] [1, 2] = Num 0"
  using euclideanDistance_symmetric_zero [of "[1, 2]" "[4, 6]"] by simp

text \<open>
  Without the equal lengths the loop is not symmetric: it runs over the first argument
  and reads the second one past its end.
\<close>

lemma euclideanDistance_unequal_lengths:
  "euclideanDistance [1] [0, 3] = Num 1" "euclideanDistance [0, 3] [1] = NaN"
  by (simp_all add: euclideanDistance_def at_index_def)

subsection \<open>The two loops as one pass over the pairs\<close>

lemma set_pairs_of:
  "set (pairs_of st) = {(employeeId s, e) | s e. s \<in> set st \<and> e \<in> set (descriptors s)}"
  by (auto simp: pairs_of_def)

lemma consider_stored_pairs:
  "consider_stored d s best = fold (consider_pair d) (map (\<lambda>e. (employeeId s, e)) (descriptors s)) best"
  by (simp add: consider_stored_def fold_map comp_def consider_pair_def)

lemma fold_consider_pairs:
  "fold (consider_stored d) st best = fold (consider_pair d) (pairs_of st) best"
  by (induction st arbitrary: best) (simp_all add: pairs_of_def consider_stored_pairs)

lemma findBestMatch_pairs:
  "findBestMatch d st = fold (consider_pair d) (pairs_of st) None"
  by (simp add: findBestMatch_def fold_consider_pairs)

lemma consider_pair_not_None: "consider_pair d p best \<noteq> None"
  by (simp add: consider_pair_def consider_desc_def Let_def split: option.splits)

lemma fold_consider_pair_None:
  "fold (consider_pair d) ps None = None \<longleftrightarrow> ps = []"
proof (cases ps rule: rev_cases)
  case Nil then show ?thesis by simp
next
  case (snoc ys y) then show ?thesis by (simp add: consider_pair_not_None)
qed

lemma fold_first_minimum:
  assumes "ps \<noteq> []" and "\<forall>p\<in>set ps. length (snd p) = length d"
  shows "\<exists>k<length ps. fold (consider_pair d) ps None = Some (hit d (ps ! k))
           \<and> (\<forall>j<length ps. l2_distance d (snd (ps ! k)) \<le> l2_distance d (snd (ps ! j)))
           \<and> (\<forall>j<k. l2_distance d (snd (ps ! k)) < l2_distance d (snd (ps ! j)))"
  using assms
proof (induction ps rule: rev_nonempty_induct)
  case (single p)
  then show ?case
    by (simp add: consider_pair_def consider_desc_def hit_def)
next
  case (snoc p ps)
  then obtain k where k: "k < length ps"
      and f: "fold (consider_pair d) ps None = Some (hit d (ps ! k))"
      and mn: "\<forall>j<length ps. l2_distance d (snd (ps ! k)) \<le> l2_distance d (snd (ps ! j))"
      and fst: "\<forall>j<k. l2_distance d (snd (ps ! k)) < l2_distance d (snd (ps ! j))"
    by auto
  have lp: "euclideanDistance d (snd p) = Num (l2_distance d (snd p))"
    using snoc.prems by (simp add: euclideanDistance_l2)
  have lk: "euclideanDistance d (snd (ps ! k)) = Num (l2_distance d (snd (ps ! k)))"
    using snoc.prems k by (simp add: euclideanDistance_l2)
  show ?case
  proof (cases "l2_distance d (snd p) < l2_distance d (snd (ps ! k))")
    case True
    have "fold (consider_pair d) (ps @ [p]) None = Some (hit d p)"
      using True f lp lk by (simp add: consider_pair_def consider_desc_def hit_def)
    moreover have "\<forall>j<length (ps @ [p]). l2_distance d (snd p) \<le> l2_distance d (snd ((ps @ [p]) ! j))"
      using True mn by (auto simp: nth_append less_Suc_eq intro: less_imp_le order.trans)
    moreover have "\<forall>j<length ps. l2_distance d (snd p) < l2_distance d (snd ((ps @ [p]) ! j))"
      using True mn by (auto simp: nth_append intro: less_le_trans)
    ultimately show ?thesis
      by (intro exI[of _ "length ps"]) simp
  next
    case False
    have "fold (consider_pair d) (ps @ [p]) None = Some (hit d (ps ! k))"
      using False f lp lk by (simp add: consider_pair_def consider_desc_def hit_def)
    moreover have "\<forall>j<length (ps @ [p]). l2_distance d (snd (ps ! k)) \<le> l2_distance d (snd ((ps @ [p]) ! j))"
      using False mn by (auto simp: nth_append less_Suc_eq)
    ultimately show ?thesis
      using k fst by (intro exI[of _ k]) (auto simp: nth_append)
  qed
qed

subsection \<open>The best match\<close>

lemma findBestMatch_None_iff:
  "findBestMatch d st = None \<longleftrightarrow> (\<forall>s\<in>set st. descriptors s = [])"
  by (simp add: findBestMatch_pairs fold_consider_pair_None pairs_of_def)

lemma pairs_of_nonempty: "pairs_of st \<noteq> [] \<longleftrightarrow> (\<exists>s\<in>set st. descriptors s \<noteq> [])"
  by (simp add: pairs_of_def)

lemma fixed_length_pairs:
  "fixed_length d st \<Longrightarrow> \<forall>p\<in>set (pairs_of st). length (snd p) = length d"
  by (auto simp: fixed_length_def set_pairs_of)

lemma findBestMatch_first_minimum:
  assumes "fixed_length d st" and "pairs_of st \<noteq> []"
  shows "\<exists>k<length (pairs_of st). findBestMatch d st = Some (hit d (pairs_of st ! k))
           \<and> (\<forall>j<length (pairs_of st).
                 l2_distance d (snd (pairs_of st ! k)) \<le> l2_distance d (snd (pairs_of st ! j)))
           \<and> (\<forall>j<k. l2_distance d (snd (pairs_of st ! k)) < l2_distance d (snd (pairs_of st ! j)))"
  unfolding findBestMatch_pairs
  by (rule fold_first_minimum[OF assms(2) fixed_length_pairs[OF assms(1)]])

lemma findBestMatch_minimum:
  assumes fl: "fixed_length d st" and ex: "\<exists>s\<in>set st. descriptors s \<noteq> []"
  shows "\<exists>r m. findBestMatch d st = Some r \<and> m_distance r = Num m
           \<and> (\<forall>s\<in>set st. \<forall>e\<in>set (descriptors s).
                 \<exists>x. euclideanDistance d e = Num x \<and> m \<le> x)
           \<and> (\<exists>s\<in>set st. employeeId s = m_employeeId r
                 \<and> (\<exists>e\<in>set (descriptors s). euclideanDistance d e = Num m))"
proof -
  let ?ps = "pairs_of st"
  from ex have ne: "?ps \<noteq> []" by (simp add: pairs_of_nonempty)
  from findBestMatch_first_minimum[OF fl ne]
  obtain k where k: "k < length ?ps"
    and f: "findBestMatch d st = Some (hit d (?ps ! k))"
    and mn: "\<forall>j<length ?ps. l2_distance d (snd (?ps ! k)) \<le> l2_distance d (snd (?ps ! j))"
    by blast
  let ?m = "l2_distance d (snd (?ps ! k))"
  have len: "\<forall>p\<in>set ?ps. length (snd p) = length d"
    by (rule fixed_length_pairs[OF fl])
  have dk: "euclideanDistance d (snd (?ps ! k)) = Num ?m"
    using len k by (simp add: euclideanDistance_l2)
  have all: "\<forall>s\<in>set st. \<forall>e\<in>set (descriptors s). \<exists>x. euclideanDistance d e = Num x \<and> ?m \<le> x"
  proof (intro ballI)
    fix s e assume "s \<in> set st" "e \<in> set (descriptors s)"
    then have "(employeeId s, e) \<in> set ?ps" by (auto simp: set_pairs_of)
    then obtain j where j: "j < length ?ps" "?ps ! j = (employeeId s, e)"
      by (auto simp: in_set_conv_nth)
    have "length e = length d" using fl \<open>s \<in> set st\<close> \<open>e \<in> set (descriptors s)\<close>
      by (simp add: fixed_length_def)
    then have "euclideanDistance d e = Num (l2_distance d e)"
      by (simp add: euclideanDistance_l2)
    moreover have "?m \<le> l2_distance d e" using mn j by force
    ultimately show "\<exists>x. euclideanDistance d e = Num x \<and> ?m \<le> x" by blast
  qed
  have "?ps ! k \<in> set ?ps" using k by simp
  then obtain s e where se: "s \<in> set st" "e \<in> set (descriptors s)" "?ps ! k = (employeeId s, e)"
    by (auto simp: set_pairs_of)
  have own: "\<exists>s\<in>set st. employeeId s = m_employeeId (hit d (?ps ! k))
                 \<and> (\<exists>e\<in>set (descriptors s). euclideanDistance d e = Num ?m)"
    using se dk by (auto simp: hit_def)
  show ?thesis
    using f dk all own by (intro exI[of _ "hit d (?ps ! k)"] exI[of _ ?m]) (simp add: hit_def)
qed

text \<open>
  Claim C2, as amended. \<open>findBestMatch\<close> returns nothing exactly when no identity of the
  reference set has an embedding. When every stored embedding has the length of the live
  one and there is at least one, the code's distance to each stored embedding is its
  Euclidean distance \<open>l2_distance\<close>, and \<open>findBestMatch\<close> returns a match whose distance
  \<open>m\<close> is the global minimum of the Euclidean distance over the stored embeddings of all
  identities: \<open>m\<close> is at most each of them, and the identity returned owns a stored
  embedding at Euclidean distance exactly \<open>m\<close>. As stated, for every input with at least
  one pair, the claim fails when a stored embedding is shorter than the live one.
\<close>

theorem findBestMatch_global_minimum:
  "(findBestMatch d st = None \<longleftrightarrow> (\<forall>s\<in>set st. descriptors s = []))
   \<and> (fixed_length d st \<and> (\<exists>s\<in>set st. descriptors s \<noteq> []) \<longrightarrow>
        (\<exists>r m. findBestMatch d st = Some r \<and> m_distance r = Num m
           \<and> (\<forall>s\<in>set st. \<forall>e\<in>set (descriptors s).
                 euclideanDistance d e = Num (l2_distance d e) \<and> m \<le> l2_distance d e)
           \<and> (\<exists>s\<in>set st. employeeId s = m_employeeId r
                 \<and> (\<exists>e\<in>set (descriptors s). l2_distance d e = m))))"
proof (intro conjI impI)
  show "findBestMatch d st = None \<longleftrightarrow> (\<forall>s\<in>set st. descriptors s = [])"
    by (rule findBestMatch_None_iff)
next
  assume a: "fixed_length d st \<and> (\<exists>s\<in>set st. descriptors s \<noteq> [])"
  then have fl: "fixed_length d st" and ex: "\<exists>s\<in>set st. descriptors s \<noteq> []"
    by simp_all
  have l2: "euclideanDistance d e = Num (l2_distance d e)"
    if "s \<in> set st" "e \<in> set (descriptors s)" for s e
    using fl that by (simp add: fixed_length_def euclideanDistance_l2)
  from findBestMatch_minimum[OF fl ex]
  obtain r m where r: "findBestMatch d st = Some r" "m_distance r = Num m"
    and mn: "\<forall>s\<in>set st. \<forall>e\<in>set (descriptors s). \<exists>x. euclideanDistance d e = Num x \<and> m \<le> x"
    and own: "\<exists>s\<in>set st. employeeId s = m_employeeId r
                 \<and> (\<exists>e\<in>set (descriptors s). euclideanDistance d e = Num m)"
    by blast
  have "\<forall>s\<in>set st. \<forall>e\<in>set (descriptors s).
          euclideanDistance d e = Num (l2_distance d e) \<and> m \<le> l2_distance d e"
    using mn l2 by fastforce
  moreover have "\<exists>s\<in>set st. employeeId s = m_employeeId r
                 \<and> (\<exists>e\<in>set (descriptors s). l2_distance d e = m)"
    using own l2 by fastforce
  ultimately show "\<exists>r m. findBestMatch d st = Some r \<and> m_distance r = Num m
           \<and> (\<forall>s\<in>set st. \<forall>e\<in>set (descriptors s).
                 euclideanDistance d e = Num (l2_distance d e) \<and> m \<le> l2_distance d e)
           \<and> (\<exists>s\<in>set st. employeeId s = m_employeeId r
                 \<and> (\<exists>e\<in>set (descriptors s). l2_distance d e = m))"
    using r by blast
qed

theorem findBestMatch_global_minimum_witness:
  "fixed_length [0, 0] [\<lparr>employeeId = ''a'', descriptors = [[2, 0], [0, 1]]\<rparr>,
                        \<lparr>employeeId = ''b'', descriptors = [[1, 0]]\<rparr>]
   \<and> findBestMatch [0, 0] [\<lparr>employeeId = ''a'', descriptors = [[2, 0], [0, 1]]\<rparr>,
                            \<lparr>employeeId = ''b'', descriptors = [[1, 0]]\<rparr>]
       = Some \<lparr>m_employeeId = ''a'', m_distance = Num 1\<rparr>
   \<and> 1 \<le> l2_distance [0, 0] [2, 0] \<and> 1 \<le> l2_distance [0, 0] [1, 0]
   \<and> l2_distance [0, 0] [0, 1] = 1"
proof -
  let ?st = "[\<lparr>employeeId = ''a'', descriptors = [[2, 0], [0, 1]]\<rparr>,
              \<lparr>employeeId = ''b'', descriptors = [[1, 0::real]]\<rparr>]"
  have h: "fixed_length [0, 0] ?st \<and> (\<exists>s\<in>set ?st. descriptors s \<noteq> [])"
    by (simp add: fixed_length_def)
  have v: "findBestMatch [0, 0] ?st = Some \<lparr>m_employeeId = ''a'', m_distance = Num 1\<rparr>"
    by (simp add: findBestMatch_def consider_stored_def consider_desc_def
          euclideanDistance_def at_index_def)
  from findBestMatch_global_minimum [of "[0, 0]" ?st] h
  obtain r m where r: "findBestMatch [0, 0] ?st = Some r" "m_distance r = Num m"
    and mn: "\<forall>s\<in>set ?st. \<forall>e\<in>set (descriptors s). m \<le> l2_distance [0, 0] e"
    by blast
  from r v have m: "m = 1" by auto
  have "l2_distance [0, 0] [0, 1] = 1"
    by (simp add: l2_distance_def lessThan_Suc)
  with mn m h v show ?thesis by simp
qed

text \<open>
  The input on which claim C2 fails as stated: \<open>a\<close> stores an embedding shorter than the
  live one, whose distance is \<open>NaN\<close>; no later distance is smaller than \<open>NaN\<close>, so \<open>a\<close> is
  returned although \<open>b\<close> stores the live embedding itself, at distance 0.
\<close>

theorem findBestMatch_global_minimum_counterexample:
  "findBestMatch [0, 3] [\<lparr>employeeId = ''a'', descriptors = [[1]]\<rparr>,
                         \<lparr>employeeId = ''b'', descriptors = [[0, 3]]\<rparr>]
     = Some \<lparr>m_employeeId = ''a'', m_distance = NaN\<rparr>
   \<and> euclideanDistance [0, 3] [0, 3] = Num 0"
  by (simp add: findBestMatch_def consider_stored_def consider_desc_def
        euclideanDistance_def at_index_def)

text \<open>
  Claim C3, as amended. When the reference set (of fixed-length embeddings) holds the
  exact query embedding under identity X, \<open>findBestMatch\<close> returns distance 0 and an
  identity that stores the exact query embedding; that identity is X when no other
  identity stores it. As stated the claim fails: of two identities storing the same
  embedding the one visited first is returned.
\<close>

theorem findBestMatch_exact_query:
  assumes "fixed_length q st" and "s \<in> set st" and "q \<in> set (descriptors s)"
  shows "\<exists>r. findBestMatch q st = Some r \<and> m_distance r = Num 0
           \<and> (\<exists>s'\<in>set st. employeeId s' = m_employeeId r \<and> q \<in> set (descriptors s'))
           \<and> ((\<forall>s'\<in>set st. q \<in> set (descriptors s') \<longrightarrow> employeeId s' = employeeId s)
                \<longrightarrow> m_employeeId r = employeeId s)"
proof -
  have "\<exists>s\<in>set st. descriptors s \<noteq> []"
    using assms(2,3) by (intro bexI[of _ s]) auto
  from findBestMatch_minimum[OF assms(1) this]
  obtain r m where r: "findBestMatch q st = Some r" "m_distance r = Num m"
    and mn: "\<forall>s\<in>set st. \<forall>e\<in>set (descriptors s). \<exists>x. euclideanDistance q e = Num x \<and> m \<le> x"
    and own: "\<exists>s\<in>set st. employeeId s = m_employeeId r
                 \<and> (\<exists>e\<in>set (descriptors s). euclideanDistance q e = Num m)"
    by blast
  have "euclideanDistance q q = Num 0"
    by (simp add: euclideanDistance_l2 l2_distance_self)
  with mn assms have "m \<le> 0" by fastforce
  from own obtain s' e where s': "s' \<in> set st" "employeeId s' = m_employeeId r"
     "e \<in> set (descriptors s')" "euclideanDistance q e = Num m"
    by blast
  have le: "length q = length e" using assms(1) s' by (simp add: fixed_length_def)
  then have "m = l2_distance q e" using s'(4) by (simp add: euclideanDistance_l2)
  with \<open>m \<le> 0\<close> l2_distance_nonneg[of q e] have m0: "m = 0" and "l2_distance q e = 0" by simp_all
  then have "e = q" using le by (simp add: l2_distance_zero_iff)
  with s' have ownq: "\<exists>s'\<in>set st. employeeId s' = m_employeeId r \<and> q \<in> set (descriptors s')"
    by blast
  then have "(\<forall>s'\<in>set st. q \<in> set (descriptors s') \<longrightarrow> employeeId s' = employeeId s)
                \<longrightarrow> m_employeeId r = employeeId s"
    by metis
  with r m0 ownq show ?thesis by simp
qed

theorem findBestMatch_exact_query_witness:
  "fixed_length [1, 2] [\<lparr>employeeId = ''Y'', descriptors = [[0, 0]]\<rparr>,
                        \<lparr>employeeId = ''X'', descriptors = [[5, 5], [1, 2]]\<rparr>]
   \<and> \<lparr>employeeId = ''X'', descriptors = [[5, 5], [1, 2]]\<rparr>
        \<in> set [\<lparr>employeeId = ''Y'', descriptors = [[0, 0]]\<rparr>,
                \<lparr>employeeId = ''X'', descriptors = [[5, 5], [1, 2]]\<rparr>]
   \<and> [1, 2] \<in> set (descriptors \<lparr>employeeId = ''X'', descriptors = [[5, 5], [1, 2]]\<rparr>)
   \<and> (\<exists>r. findBestMatch [1, 2] [\<lparr>employeeId = ''Y'', descriptors = [[0, 0]]\<rparr>,
                                   \<lparr>employeeId = ''X'', descriptors = [[5, 5], [1, 2]]\<rparr>] = Some r
          \<and> m_distance r = Num 0 \<and> m_employeeId r = ''X'')"
proof -
  let ?sx = "\<lparr>employeeId = ''X'', descriptors = [[5, 5], [1, 2::real]]\<rparr>"
  let ?st = "[\<lparr>employeeId = ''Y'', descriptors = [[0, 0]]\<rparr>, ?sx]"
  have h1: "fixed_length [1, 2] ?st" by (simp add: fixed_length_def)
  have h2: "?sx \<in> set ?st" by simp
  have h3: "[1, 2] \<in> set (descriptors ?sx)" by simp
  have only: "\<forall>s'\<in>set ?st. [1, 2] \<in> set (descriptors s') \<longrightarrow> employeeId s' = employeeId ?sx"
    by simp
  from findBestMatch_exact_query [OF h1 h2 h3] only h1 h2 h3 show ?thesis
    by fastforce
qed

text \<open>
  The input on which claim C3 fails as stated: X stores the query \<open>[0]\<close>, Y stores it too
  and comes first, and the result is Y.
\<close>

theorem findBestMatch_exact_query_counterexample:
  "[0] \<in> set (descriptors \<lparr>employeeId = ''X'', descriptors = [[0]]\<rparr>)
   \<and> findBestMatch [0] [\<lparr>employeeId = ''Y'', descriptors = [[0]]\<rparr>,
                        \<lparr>employeeId = ''X'', descriptors = [[0]]\<rparr>]
       = Some \<lparr>m_employeeId = ''Y'', m_distance = Num 0\<rparr>"
  by (simp add: findBestMatch_def consider_stored_def consider_desc_def euclideanDistance_def at_index_def)

text \<open>
  Claim C10, as amended. \<open>findBestMatch\<close> is a function of its two arguments, so two runs
  on the same input agree. When every stored embedding has the length of the live one,
  the code's distance to each pair is its Euclidean distance, and of the pairs at the
  minimum distance the first in the order of enumeration (\<open>pairs_of\<close>: the outer list,
  then the descriptors of each identity) is returned: the pair returned is at most as
  far as every pair and every pair before it is strictly farther. As stated, for every
  input, the claim fails when a stored embedding is shorter than the live one.
\<close>

theorem findBestMatch_first_wins:
  assumes "fixed_length d st" and "pairs_of st \<noteq> []"
  shows "\<exists>k<length (pairs_of st).
           findBestMatch d st
             = Some \<lparr>m_employeeId = fst (pairs_of st ! k),
                     m_distance = euclideanDistance d (snd (pairs_of st ! k))\<rparr>
           \<and> (\<forall>j<length (pairs_of st).
                 euclideanDistance d (snd (pairs_of st ! j))
                   = Num (l2_distance d (snd (pairs_of st ! j))))
           \<and> (\<forall>j<length (pairs_of st).
                 l2_distance d (snd (pairs_of st ! k)) \<le> l2_distance d (snd (pairs_of st ! j)))
           \<and> (\<forall>j<k. l2_distance d (snd (pairs_of st ! k)) < l2_distance d (snd (pairs_of st ! j)))"
proof -
  let ?ps = "pairs_of st"
  from findBestMatch_first_minimum[OF assms]
  obtain k where k: "k < length ?ps"
    and f: "findBestMatch d st = Some (hit d (?ps ! k))"
    and mn: "\<forall>j<length ?ps. l2_distance d (snd (?ps ! k)) \<le> l2_distance d (snd (?ps ! j))"
    and fs: "\<forall>j<k. l2_distance d (snd (?ps ! k)) < l2_distance d (snd (?ps ! j))"
    by blast
  have eq: "\<forall>j<length ?ps. euclideanDistance d (snd (?ps ! j)) = Num (l2_distance d (snd (?ps ! j)))"
    using fixed_length_pairs[OF assms(1)] by (simp add: euclideanDistance_l2)
  show ?thesis
    using k f mn fs eq by (intro exI[of _ k]) (simp add: hit_def)
qed

theorem findBestMatch_first_wins_witness:
  "fixed_length [0, 0] [\<lparr>employeeId = ''a'', descriptors = [[2, 0], [0, 1]]\<rparr>,
                        \<lparr>employeeId = ''b'', descriptors = [[1, 0]]\<rparr>]
   \<and> pairs_of [\<lparr>employeeId = ''a'', descriptors = [[2, 0], [0, 1]]\<rparr>,
               \<lparr>employeeId = ''b'', descriptors = [[1, 0]]\<rparr>]
       = [(''a'', [2, 0]), (''a'', [0, 1]), (''b'', [1, 0])]
   \<and> findBestMatch [0, 0] [\<lparr>employeeId = ''a'', descriptors = [[2, 0], [0, 1]]\<rparr>,
                            \<lparr>employeeId = ''b'', descriptors = [[1, 0]]\<rparr>]
       = Some \<lparr>m_employeeId = ''a'', m_distance = Num 1\<rparr>
   \<and> l2_distance [0, 0] [0, 1] = l2_distance [0, 0] [1, 0]
   \<and> (\<exists>k<3. [(''a'', [2, 0]), (''a'', [0, 1]), (''b'', [1, 0::real])] ! k = (''a'', [0, 1])
         \<and> (\<forall>j<k. l2_distance [0, 0] [0, 1]
                     < l2_distance [0, 0]
                         (snd ([(''a'', [2, 0]), (''a'', [0, 1]), (''b'', [1, 0])] ! j))))"
proof -
  let ?st = "[\<lparr>employeeId = ''a'', descriptors = [[2, 0], [0, 1]]\<rparr>,
              \<lparr>employeeId = ''b'', descriptors = [[1, 0::real]]\<rparr>]"
  let ?ps = "[(''a'', [2, 0]), (''a'', [0, 1]), (''b'', [1, 0::real])]"
  have h1: "fixed_length [0, 0] ?st" by (simp add: fixed_length_def)
  have ps: "pairs_of ?st = ?ps" by (simp add: pairs_of_def)
  then have h2: "pairs_of ?st \<noteq> []" by simp
  have v: "findBestMatch [0, 0] ?st = Some \<lparr>m_employeeId = ''a'', m_distance = Num 1\<rparr>"
    by (simp add: findBestMatch_def consider_stored_def consider_desc_def
          euclideanDistance_def at_index_def)
  have tie: "l2_distance [0, 0] [0, 1] = l2_distance [0, 0] [1, 0]"
    by (simp add: l2_distance_def lessThan_Suc)
  have l3: "length ?ps = 3" by simp
  from findBestMatch_first_wins [OF h1 h2]
  obtain k where k: "k < 3"
    and f: "Some \<lparr>m_employeeId = ''a'', m_distance = Num 1\<rparr>
              = Some \<lparr>m_employeeId = fst (?ps ! k),
                      m_distance = euclideanDistance [0, 0] (snd (?ps ! k))\<rparr>"
    and eq: "\<forall>j<3. euclideanDistance [0, 0] (snd (?ps ! j)) = Num (l2_distance [0, 0] (snd (?ps ! j)))"
    and mn: "\<forall>j<3. l2_distance [0, 0] (snd (?ps ! k)) \<le> l2_distance [0, 0] (snd (?ps ! j))"
    and fs: "\<forall>j<k. l2_distance [0, 0] (snd (?ps ! k)) < l2_distance [0, 0] (snd (?ps ! j))"
    unfolding ps l3 v by blast
  have d2: "l2_distance [0, 0] [2, 0] = 2"
    by (simp add: l2_distance_def lessThan_Suc)
  have d1: "l2_distance [0, 0] [1, 0] = 1"
    by (simp add: l2_distance_def lessThan_Suc)
  from k have "k = 0 \<or> k = 1 \<or> k = 2" by auto
  then have k1: "k = 1"
  proof (elim disjE)
    have "euclideanDistance [0, 0] [2, 0] = Num 2"
      by (simp add: euclideanDistance_l2 d2)
    moreover assume "k = 0"
    ultimately show ?thesis using f by simp
  next
    assume "k = 1" then show ?thesis .
  next
    assume k2: "k = 2"
    with fs have "l2_distance [0, 0] [1, 0] < l2_distance [0, 0] [0, 1]"
      by (auto dest: spec[of _ 1])
    with tie show ?thesis by simp
  qed
  have "?ps ! k = (''a'', [0, 1])" using k1 by simp
  moreover have "\<forall>j<k. l2_distance [0, 0] [0, 1] < l2_distance [0, 0] (snd (?ps ! j))"
    using fs k1 by simp
  ultimately show ?thesis using h1 ps v tie k by blast
qed

text \<open>
  The input on which claim C10 fails as stated: the pairs at the minimum distance 0 are
  those of \<open>b\<close> and \<open>c\<close>, \<open>b\<close> first, but \<open>a\<close>, whose embedding is shorter than the live
  one and at distance \<open>NaN\<close>, is returned.
\<close>

theorem findBestMatch_first_wins_counterexample:
  "pairs_of [\<lparr>employeeId = ''a'', descriptors = [[1]]\<rparr>,
             \<lparr>employeeId = ''b'', descriptors = [[0, 3]]\<rparr>,
             \<lparr>employeeId = ''c'', descriptors = [[0, 3]]\<rparr>]
     = [(''a'', [1]), (''b'', [0, 3]), (''c'', [0, 3])]
   \<and> findBestMatch [0, 3] [\<lparr>employeeId = ''a'', descriptors = [[1]]\<rparr>,
                            \<lparr>employeeId = ''b'', descriptors = [[0, 3]]\<rparr>,
                            \<lparr>employeeId = ''c'', descriptors = [[0, 3]]\<rparr>]
       = Some \<lparr>m_employeeId = ''a'', m_distance = NaN\<rparr>
   \<and> euclideanDistance [0, 3] [0, 3] = Num 0"
  by (simp add: pairs_of_def findBestMatch_def consider_stored_def consider_desc_def
        euclideanDistance_def at_index_def)

section \<open>Properties of enrollment\<close>

text \<open>
  Claim C7. With fewer than \<open>REQUIRED_CAPTURES\<close> (5) descriptors captured, \<open>handleSubmit\<close>
  only raises the insufficient-captures toast, whatever the form holds and whatever the
  outside would answer: no employee query, no employee insert, no save of encodings.
\<close>

theorem handleSubmit_insufficient_captures:
  assumes "length (capturedDescriptors s) < REQUIRED_CAPTURES"
  shows "handleSubmit b s = [Toast ''Insufficient captures'']
         \<and> (\<forall>e\<in>set (handleSubmit b s). \<not> store_effect e)"
  using assms by (simp add: handleSubmit_def)

theorem handleSubmit_insufficient_captures_witness:
  "length (capturedDescriptors
      \<lparr>capturedDescriptors = [[1], [2], [3], [4]], capturedImages = [],
       formData = \<lparr>f_name = ''Ann'', f_employeeId = ''E1'', f_department = ''IT'',
                   f_email = [], f_phone = []\<rparr>\<rparr>) < REQUIRED_CAPTURES
   \<and> handleSubmit \<lparr>existing = False, insert_result = Some ''u1'', save_ok = True\<rparr>
      \<lparr>capturedDescriptors = [[1], [2], [3], [4]], capturedImages = [],
       formData = \<lparr>f_name = ''Ann'', f_employeeId = ''E1'', f_department = ''IT'',
                   f_email = [], f_phone = []\<rparr>\<rparr> = [Toast ''Insufficient captures'']"
proof -
  let ?s = "\<lparr>capturedDescriptors = [[1], [2], [3], [4::real]], capturedImages = [],
       formData = \<lparr>f_name = ''Ann'', f_employeeId = ''E1'', f_department = ''IT'',
                   f_email = [], f_phone = []\<rparr>\<rparr>"
  have h: "length (capturedDescriptors ?s) < REQUIRED_CAPTURES"
    by (simp add: REQUIRED_CAPTURES_def)
  from handleSubmit_insufficient_captures [OF h] h show ?thesis by simp
qed

section \<open>Properties of the recognition loop\<close>

subsection \<open>Status of a check-in\<close>

lemma same_day_compare:
  fixes t t2 D c :: int
  assumes "t2 div D = t div D"
  shows "t > t2 div D * D + c \<longleftrightarrow> t mod D > c"
proof -
  have "t = t div D * D + t mod D" by simp
  then have "t > t div D * D + c \<longleftrightarrow> t div D * D + t mod D > t div D * D + c" by simp
  also have "\<dots> \<longleftrightarrow> t mod D > c" by (rule add_less_cancel_left)
  finally show ?thesis using assms by simp
qed

lemma setHours_same_day:
  "local_day t2 = local_day t \<Longrightarrow> t > setHours 9 0 0 0 t2 \<longleftrightarrow> time_of_day t > 9 * 60 * 60 * 1000"
  unfolding setHours_def local_day_def time_of_day_def
  using same_day_compare [of t2 86400000 t "9 * 60 * 60 * 1000"] by simp

lemma attendance_status_same_day:
  "local_day t2 = local_day t \<Longrightarrow>
   attendance_status t t2 = (if time_of_day t > 9 * 60 * 60 * 1000 then Late else Present)"
  by (simp add: attendance_status_def Let_def setHours_same_day)

lemma markAttendance_insert_calls:
  "insert_calls (markAttendance e c t w) = insert_calls w @ [attendance_row e c t]"
  by (simp add: markAttendance_def Let_def)




text \<open>
  Claim C5, as amended. When the two readings of the clock in \<open>markAttendance\<close> fall on
  the same local day, a check-in strictly before the 09:00 cutoff has status \<open>Present\<close>
  and one strictly after has status \<open>Late\<close>; in particular 08:59:59 gives \<open>Present\<close> and
  09:00:01 gives \<open>Late\<close>; exactly at the cutoff it is \<open>Present\<close>. As stated (\<open>Late\<close> at
  or after the cutoff) the claim fails at the cutoff itself, where the comparison
  \<open>now > workStartTime\<close> gives \<open>Present\<close>.
\<close>

theorem markAttendance_status_strict:
  assumes "local_day (now2 t) = local_day (now t)"
  shows "(time_of_day (now t) < 9 * 60 * 60 * 1000 \<longrightarrow>
            a_status (last (insert_calls (markAttendance e c t w))) = Present)
         \<and> (time_of_day (now t) > 9 * 60 * 60 * 1000 \<longrightarrow>
            a_status (last (insert_calls (markAttendance e c t w))) = Late)
         \<and> (time_of_day (now t) = 9 * 60 * 60 * 1000 \<longrightarrow>
            a_status (last (insert_calls (markAttendance e c t w))) = Present)
         \<and> (time_of_day (now t) = (8 * 60 + 59) * 60 * 1000 + 59 * 1000 \<longrightarrow>
            a_status (last (insert_calls (markAttendance e c t w))) = Present)
         \<and> (time_of_day (now t) = 9 * 60 * 60 * 1000 + 1000 \<longrightarrow>
            a_status (last (insert_calls (markAttendance e c t w))) = Late)"
  using assms
  by (simp add: markAttendance_insert_calls attendance_row_def attendance_status_same_day)

theorem markAttendance_status_strict_witness:
  "local_day (now2 \<lparr>frame = NoFace, now = 86400000 + 32401000, now2 = 86400000 + 32401002,
                     insert_error = False\<rparr>)
     = local_day (now \<lparr>frame = NoFace, now = 86400000 + 32401000, now2 = 86400000 + 32401002,
                       insert_error = False\<rparr>)
   \<and> time_of_day (now \<lparr>frame = NoFace, now = 86400000 + 32401000, now2 = 86400000 + 32401002,
                       insert_error = False\<rparr>) = 9 * 60 * 60 * 1000 + 1000
   \<and> a_status (last (insert_calls (markAttendance
        \<lparr>e_id = ''u1'', e_name = ''Ann'', e_employee_id = ''E1'', e_department = ''IT''\<rparr> (Num 90)
        \<lparr>frame = NoFace, now = 86400000 + 32401000, now2 = 86400000 + 32401002,
          insert_error = False\<rparr> (mount [])))) = Late"
proof -
  let ?t = "\<lparr>frame = NoFace, now = 86400000 + 32401000, now2 = 86400000 + 32401002,
             insert_error = False\<rparr>"
  have h: "local_day (now2 ?t) = local_day (now ?t)" by (simp add: local_day_def)
  have c: "time_of_day (now ?t) = 9 * 60 * 60 * 1000 + 1000" by (simp add: time_of_day_def)
  from markAttendance_status_strict [OF h] h c show ?thesis by simp
qed

text \<open>The check-in at exactly 09:00:00.000 on which claim C5 fails as stated.\<close>

theorem markAttendance_status_at_cutoff_counterexample:
  "time_of_day 32400000 = 9 * 60 * 60 * 1000
   \<and> a_status (last (insert_calls (markAttendance
        \<lparr>e_id = ''u1'', e_name = ''Ann'', e_employee_id = ''E1'', e_department = ''IT''\<rparr> (Num 90)
        \<lparr>frame = NoFace, now = 32400000, now2 = 32400000, insert_error = False\<rparr> (mount []))))
       = Present"
  by (simp add: time_of_day_def markAttendance_def attendance_row_def attendance_status_def
        setHours_def local_day_def mount_def Let_def)

subsection \<open>One frame\<close>

lemma recognized_SomeD:
  assumes "recognized sc q = Some (e, c)"
  shows "storedFaces sc \<noteq> [] \<and> (\<exists>m. findBestMatch q (storedFaces sc) = Some m
           \<and> jless (m_distance m) MATCH_THRESHOLD
           \<and> employees sc (m_employeeId m) = Some e \<and> c = confidence_of (m_distance m))"
  using assms by (auto simp: recognized_def split: if_splits option.splits)

lemma recognized_SomeI:
  assumes "storedFaces sc \<noteq> []" "findBestMatch q (storedFaces sc) = Some m"
    "jless (m_distance m) MATCH_THRESHOLD" "employees sc (m_employeeId m) = Some e"
  shows "recognized sc q = Some (e, confidence_of (m_distance m))"
  using assms by (simp add: recognized_def)

lemma detectAndMatch_recognized:
  assumes "frame t = Face q" and "\<not> processLock w" and "recognized sc q = Some (e, c)"
  shows "detectAndMatch sc t w =
           (if e_id e \<notin> markedToday sc
            then markAttendance e c t (w\<lparr>faceDetected := True, processLock := True, lastMatch := Some (e, c)\<rparr>)
            else w\<lparr>faceDetected := True, processLock := True, lastMatch := Some (e, c)\<rparr>)"
proof -
  from recognized_SomeD[OF assms(3)] obtain m where
    m: "storedFaces sc \<noteq> []" "findBestMatch q (storedFaces sc) = Some m"
       "jless (m_distance m) MATCH_THRESHOLD" "employees sc (m_employeeId m) = Some e"
       "c = confidence_of (m_distance m)"
    by blast
  show ?thesis
    using assms(1,2) m by (simp add: detectAndMatch_def Let_def)
qed

lemma markAttendance_lastMatch: "lastMatch (markAttendance e c t w) = lastMatch w"
  by (simp add: markAttendance_def Let_def)

lemma confidence_of_Num: "confidence_of (Num d) = Num (of_int (round ((1 - d) * 100)))"
  by (simp add: confidence_of_def round_def)

lemma markAttendance_state:
  "state (markAttendance e c t w) =
     (if insert_error t then state w
      else (state w)\<lparr>markedToday := insert (e_id e) (markedToday (state w))\<rparr>)"
  by (simp add: markAttendance_def Let_def)

lemma markAttendance_attendance:
  "attendance (markAttendance e c t w) =
     (if insert_error t then attendance w else attendance w @ [attendance_row e c t])"
  by (simp add: markAttendance_def Let_def)

lemma markAttendance_processLock: "processLock (markAttendance e c t w) = processLock w"
  by (simp add: markAttendance_def Let_def)

lemma example_recognized:
  "recognized \<lparr>storedFaces = [\<lparr>employeeId = ''u1'', descriptors = [[0, 0]]\<rparr>],
               employees = [''u1'' \<mapsto> \<lparr>e_id = ''u1'', e_name = ''Ann'', e_employee_id = ''E1'',
                                        e_department = ''IT''\<rparr>],
               markedToday = {}\<rparr> [0, 0]
   = Some (\<lparr>e_id = ''u1'', e_name = ''Ann'', e_employee_id = ''E1'', e_department = ''IT''\<rparr>, Num 100)"
  by (simp add: recognized_def findBestMatch_def consider_stored_def consider_desc_def
        euclideanDistance_def at_index_def MATCH_THRESHOLD_def confidence_of_def)

lemma example_findBestMatch:
  "findBestMatch [0, 0] [\<lparr>employeeId = ''u1'', descriptors = [[0, 0]]\<rparr>]
     = Some \<lparr>m_employeeId = ''u1'', m_distance = Num 0\<rparr>"
  by (simp add: findBestMatch_def consider_stored_def consider_desc_def
        euclideanDistance_def at_index_def)

text \<open>
  Claim C9. For an accepted match at distance \<open>d\<close> the confidence shown, and sent with the
  check-in, is \<open>(1 - d) * 100\<close> rounded to the nearest integer. From distance 0 it is 100,
  and from any distance of at least 1 it is at most 0.
\<close>

theorem confidence_reported:
  "(frame t = Face q \<and> \<not> processLock w \<and> storedFaces sc \<noteq> []
      \<and> findBestMatch q (storedFaces sc) = Some m \<and> m_distance m = Num d \<and> d < 1 / 2
      \<and> employees sc (m_employeeId m) = Some e \<longrightarrow>
        lastMatch (detectAndMatch sc t w) = Some (e, Num (of_int (round ((1 - d) * 100))))
        \<and> (e_id e \<notin> markedToday sc \<longrightarrow>
             a_confidence_score (last (insert_calls (detectAndMatch sc t w)))
               = Num (of_int (round ((1 - d) * 100)))))
   \<and> confidence_of (Num 0) = Num 100
   \<and> (1 \<le> d' \<longrightarrow> (\<exists>k. confidence_of (Num d') = Num (of_int k) \<and> k \<le> 0))"
proof (intro conjI impI)
  assume a: "frame t = Face q \<and> \<not> processLock w \<and> storedFaces sc \<noteq> []
      \<and> findBestMatch q (storedFaces sc) = Some m \<and> m_distance m = Num d \<and> d < 1 / 2
      \<and> employees sc (m_employeeId m) = Some e"
  then have r: "recognized sc q = Some (e, Num (of_int (round ((1 - d) * 100))))"
    using recognized_SomeI[of sc q m e] by (simp add: MATCH_THRESHOLD_def confidence_of_Num)
  from a have dm: "detectAndMatch sc t w =
           (if e_id e \<notin> markedToday sc
            then markAttendance e (Num (of_int (round ((1 - d) * 100)))) t
                   (w\<lparr>faceDetected := True, processLock := True,
                      lastMatch := Some (e, Num (of_int (round ((1 - d) * 100))))\<rparr>)
            else w\<lparr>faceDetected := True, processLock := True,
                   lastMatch := Some (e, Num (of_int (round ((1 - d) * 100))))\<rparr>)"
    using detectAndMatch_recognized[OF _ _ r, of t w] by simp
  show "lastMatch (detectAndMatch sc t w) = Some (e, Num (of_int (round ((1 - d) * 100))))"
    unfolding dm by (simp add: markAttendance_lastMatch)
  assume "e_id e \<notin> markedToday sc"
  then show "a_confidence_score (last (insert_calls (detectAndMatch sc t w)))
               = Num (of_int (round ((1 - d) * 100)))"
    unfolding dm by (simp add: markAttendance_insert_calls attendance_row_def)
next
  show "confidence_of (Num 0) = Num 100"
    by (simp add: confidence_of_Num)
next
  assume "1 \<le> d'"
  then have "(1 - d') * 100 \<le> 0" by simp
  then have "round ((1 - d') * 100) \<le> 0"
    by (metis round_mono round_0)
  then show "\<exists>k. confidence_of (Num d') = Num (of_int k) \<and> k \<le> 0"
    by (auto simp: confidence_of_Num)
qed

theorem confidence_reported_witness:
  "findBestMatch [0, 0] [\<lparr>employeeId = ''u1'', descriptors = [[0, 0]]\<rparr>]
     = Some \<lparr>m_employeeId = ''u1'', m_distance = Num 0\<rparr>
   \<and> lastMatch (detectAndMatch
        \<lparr>storedFaces = [\<lparr>employeeId = ''u1'', descriptors = [[0, 0]]\<rparr>],
         employees = [''u1'' \<mapsto> \<lparr>e_id = ''u1'', e_name = ''Ann'', e_employee_id = ''E1'',
                                  e_department = ''IT''\<rparr>],
         markedToday = {}\<rparr>
        \<lparr>frame = Face [0, 0], now = 1000, now2 = 1000, insert_error = False\<rparr>
        (mount []))
     = Some (\<lparr>e_id = ''u1'', e_name = ''Ann'', e_employee_id = ''E1'', e_department = ''IT''\<rparr>,
             Num 100)
   \<and> (\<exists>k. confidence_of (Num 1) = Num (of_int k) \<and> k \<le> 0)"
proof -
  let ?ann = "\<lparr>e_id = ''u1'', e_name = ''Ann'', e_employee_id = ''E1'', e_department = ''IT''\<rparr>"
  let ?sc = "\<lparr>storedFaces = [\<lparr>employeeId = ''u1'', descriptors = [[0, 0]]\<rparr>],
              employees = [''u1'' \<mapsto> ?ann], markedToday = {}\<rparr>"
  let ?t = "\<lparr>frame = Face [0, 0], now = 1000, now2 = 1000, insert_error = False\<rparr>"
  let ?m = "\<lparr>m_employeeId = ''u1'', m_distance = Num 0\<rparr>"
  have h: "frame ?t = Face [0, 0] \<and> \<not> processLock (mount []) \<and> storedFaces ?sc \<noteq> []
      \<and> findBestMatch [0, 0] (storedFaces ?sc) = Some ?m \<and> m_distance ?m = Num 0
      \<and> (0::real) < 1 / 2 \<and> employees ?sc (m_employeeId ?m) = Some ?ann"
    by (simp add: example_findBestMatch mount_def)
  have h1: "(1::real) \<le> 1" by simp
  from confidence_reported [of ?t "[0, 0]" "mount []" ?sc ?m 0 ?ann 1] h h1
  show ?thesis
    by (simp add: example_findBestMatch)
qed

subsection \<open>Failed inserts\<close>

text \<open>
  Claim C6. When the insert returns an error, \<open>markAttendance\<close> leaves \<open>markedToday\<close> (and
  the table) as they were; the identity is added only when the insert succeeds. After a
  failed insert the state of the component is unchanged, and the next frame that
  recognizes the identity, once the lock is released, asks for the insert again.
\<close>

theorem markAttendance_error_keeps_markedToday:
  "(insert_error t \<longrightarrow>
      markedToday (state (markAttendance e c t w)) = markedToday (state w)
      \<and> attendance (markAttendance e c t w) = attendance w)
   \<and> (\<not> insert_error t \<longrightarrow>
      markedToday (state (markAttendance e c t w)) = insert (e_id e) (markedToday (state w))
      \<and> attendance (markAttendance e c t w) = attendance w @ [attendance_row e c t])
   \<and> (insert_error t1 \<and> frame t1 = Face q \<and> frame t2 = Face q \<and> \<not> processLock w
        \<and> recognized (state w) q = Some (e, c) \<and> e_id e \<notin> markedToday (state w) \<longrightarrow>
      state (fold (step (state w)) [AnimationFrame t1] w) = state w
      \<and> insert_calls (fold (step (state w)) [AnimationFrame t1, Timeout, AnimationFrame t2] w)
          = insert_calls w @ [attendance_row e c t1, attendance_row e c t2])"
proof (intro conjI impI)
  assume a: "insert_error t1 \<and> frame t1 = Face q \<and> frame t2 = Face q \<and> \<not> processLock w
        \<and> recognized (state w) q = Some (e, c) \<and> e_id e \<notin> markedToday (state w)"
  let ?w3 = "w\<lparr>faceDetected := True, processLock := True, lastMatch := Some (e, c)\<rparr>"
  let ?w1 = "markAttendance e c t1 ?w3"
  from a have d1: "detectAndMatch (state w) t1 w = ?w1"
    using detectAndMatch_recognized[of t1 q w "state w" e c] by simp
  show "state (fold (step (state w)) [AnimationFrame t1] w) = state w"
    using a by (simp add: d1 markAttendance_state)
  let ?w2 = "?w1\<lparr>processLock := False\<rparr>"
  have "detectAndMatch (state w) t2 ?w2
          = markAttendance e c t2 (?w2\<lparr>faceDetected := True, processLock := True, lastMatch := Some (e, c)\<rparr>)"
    using a detectAndMatch_recognized[of t2 q ?w2 "state w" e c] by simp
  then show "insert_calls (fold (step (state w)) [AnimationFrame t1, Timeout, AnimationFrame t2] w)
          = insert_calls w @ [attendance_row e c t1, attendance_row e c t2]"
    by (simp add: d1 markAttendance_insert_calls)
qed (simp_all add: markAttendance_state markAttendance_attendance)

theorem markAttendance_error_keeps_markedToday_witness:
  "insert_error \<lparr>frame = Face [0, 0], now = 1000, now2 = 1000, insert_error = True\<rparr>
   \<and> recognized \<lparr>storedFaces = [\<lparr>employeeId = ''u1'', descriptors = [[0, 0]]\<rparr>],
         employees = [''u1'' \<mapsto> \<lparr>e_id = ''u1'', e_name = ''Ann'', e_employee_id = ''E1'',
                                  e_department = ''IT''\<rparr>],
         markedToday = {}\<rparr> [0, 0]
       = Some (\<lparr>e_id = ''u1'', e_name = ''Ann'', e_employee_id = ''E1'', e_department = ''IT''\<rparr>,
               Num 100)
   \<and> markedToday (state (fold (step
          \<lparr>storedFaces = [\<lparr>employeeId = ''u1'', descriptors = [[0, 0]]\<rparr>],
           employees = [''u1'' \<mapsto> \<lparr>e_id = ''u1'', e_name = ''Ann'', e_employee_id = ''E1'',
                                    e_department = ''IT''\<rparr>],
           markedToday = {}\<rparr>)
        [AnimationFrame \<lparr>frame = Face [0, 0], now = 1000, now2 = 1000, insert_error = True\<rparr>]
        ((mount [])\<lparr>state := \<lparr>storedFaces = [\<lparr>employeeId = ''u1'', descriptors = [[0, 0]]\<rparr>],
           employees = [''u1'' \<mapsto> \<lparr>e_id = ''u1'', e_name = ''Ann'', e_employee_id = ''E1'',
                                    e_department = ''IT''\<rparr>],
           markedToday = {}\<rparr>\<rparr>))) = {}
   \<and> map a_check_in_time (insert_calls (fold (step
          \<lparr>storedFaces = [\<lparr>employeeId = ''u1'', descriptors = [[0, 0]]\<rparr>],
           employees = [''u1'' \<mapsto> \<lparr>e_id = ''u1'', e_name = ''Ann'', e_employee_id = ''E1'',
                                    e_department = ''IT''\<rparr>],
           markedToday = {}\<rparr>)
        [AnimationFrame \<lparr>frame = Face [0, 0], now = 1000, now2 = 1000, insert_error = True\<rparr>,
         Timeout,
         AnimationFrame \<lparr>frame = Face [0, 0], now = 2000, now2 = 2000, insert_error = False\<rparr>]
        ((mount [])\<lparr>state := \<lparr>storedFaces = [\<lparr>employeeId = ''u1'', descriptors = [[0, 0]]\<rparr>],
           employees = [''u1'' \<mapsto> \<lparr>e_id = ''u1'', e_name = ''Ann'', e_employee_id = ''E1'',
                                    e_department = ''IT''\<rparr>],
           markedToday = {}\<rparr>\<rparr>))) = [1000, 2000]"
proof -
  let ?ann = "\<lparr>e_id = ''u1'', e_name = ''Ann'', e_employee_id = ''E1'', e_department = ''IT''\<rparr>"
  let ?sc = "\<lparr>storedFaces = [\<lparr>employeeId = ''u1'', descriptors = [[0, 0]]\<rparr>],
              employees = [''u1'' \<mapsto> ?ann], markedToday = {}\<rparr>"
  let ?w = "(mount [])\<lparr>state := ?sc\<rparr>"
  let ?t1 = "\<lparr>frame = Face [0, 0], now = 1000, now2 = 1000, insert_error = True\<rparr>"
  let ?t2 = "\<lparr>frame = Face [0, 0], now = 2000, now2 = 2000, insert_error = False\<rparr>"
  have r: "recognized ?sc [0, 0] = Some (?ann, Num 100)"
    by (rule example_recognized)
  have h: "insert_error ?t1 \<and> frame ?t1 = Face [0, 0] \<and> frame ?t2 = Face [0, 0]
        \<and> \<not> processLock ?w \<and> recognized (state ?w) [0, 0] = Some (?ann, Num 100)
        \<and> e_id ?ann \<notin> markedToday (state ?w)"
    using r by (simp add: mount_def)
  have i: "insert_calls ?w = []" by (simp add: mount_def)
  from markAttendance_error_keeps_markedToday
         [of ?t1 ?ann "Num 100" ?w ?t1 "[0, 0]" ?t2] h r
  show ?thesis
    by (simp add: i attendance_row_def)
qed

end
